theory Spec2Isabelle
  imports Main "HOL-Library.FSet" "HOL-Library.Word"
begin

section \<open>Tool orchestration: data model\<close>

text \<open>
  The development embeds \<^verbatim>\<open>ToolOrchestrator\<close> (tools/ToolOrchestrator.ts). JavaScript
  runs one callback at a time, so every stretch of code between two \<^verbatim>\<open>await\<close>s is one
  atomic transition of the orchestrator; suspended calls and pending timers are part of
  the state. The configuration is taken as initialised, its two numbers
  \<^verbatim>\<open>config.tools.maxConcurrent\<close> and \<^verbatim>\<open>config.tools.timeoutMs\<close> being fields of the
  state; the calls of the logger, which do not act on the orchestrator, are left out.
\<close>

text \<open>Values of type \<^verbatim>\<open>unknown\<close> that parameter bags and result payloads carry.\<close>

datatype js_value =
    JUndefined
  | JNull
  | JBool bool
  | JNumber int
  | JString string
  | JObject "(string \<times> js_value) list"

text \<open>\<^verbatim>\<open>interface ToolParameters { [key: string]: unknown }\<close>\<close>

type_synonym tool_parameters = "string \<rightharpoonup> js_value"

text \<open>
  A thrown value: an \<^verbatim>\<open>Error\<close> with its message, or anything else
  (\<^verbatim>\<open>error instanceof Error\<close> is false).
\<close>

datatype thrown = Error string | NonError

record tool_result =
  success :: bool
  data :: "js_value option"
  message :: string
  executionTime :: int
  errors :: "string list option"

text \<open>
  What the assignment \<^verbatim>\<open>result.executionTime = executionTime\<close> does to the object that
  \<^verbatim>\<open>tool.execute\<close> resolved with: it stores the value, or (the module being strict code)
  it throws, as it does with a \<^verbatim>\<open>TypeError\<close> on a frozen object.
\<close>

datatype writability = Writable | ReadOnly thrown

text \<open>
  How the promise returned by \<^verbatim>\<open>tool.execute\<close> settles, if it ever does: with a result
  object, by a rejection, or never.
\<close>

datatype execute_outcome = Resolves tool_result writability | Rejects thrown | NeverSettles

record tool =
  name :: string
  description :: string
  category :: string
  version :: string
  execute :: "tool_parameters \<Rightarrow> execute_outcome"
  validate :: "tool_parameters \<Rightarrow> thrown + bool"

record agent_context =
  sessionId :: string
  userId :: string
  timestamp :: int
  metadata :: "string \<rightharpoonup> js_value"

record tool_execution =
  tool :: tool
  parameters :: tool_parameters
  ctxt :: agent_context
  priority :: int

text \<open>
  A call of \<^verbatim>\<open>executeTool\<close> suspended at an \<^verbatim>\<open>await\<close>: its arguments, the tool it
  looked up, its execution id, and where it waits (for \<^verbatim>\<open>tool.validate\<close>, or for the
  race of \<^verbatim>\<open>tool.execute\<close> against the timeout, started at \<^verbatim>\<open>startTime\<close>).
\<close>

datatype phase = AwaitValidate | AwaitRace int

record suspended_call = tool_execution +
  toolName :: string
  executionId :: string
  phase :: phase

text \<open>
  The value of \<^verbatim>\<open>config.tools.timeoutMs\<close>, a JavaScript number, as far as the
  orchestrator uses it: it is passed to \<^verbatim>\<open>setTimeout\<close> and rendered by the template
  literal \<^verbatim>\<open>`... ${timeoutMs}ms`\<close>. A safe integer (sign and magnitude below
  \<open>2^53\<close>) is rendered by its decimal digits, minus zero as \<^verbatim>\<open>0\<close>. Every other
  number (an integer beyond the safe range, a fraction, an infinity) is given by
  the text that the template literal renders it to, such as \<^verbatim>\<open>1e+21\<close>.
\<close>

datatype js_number = SafeInteger bool "53 word" | OtherNumber string

definition decimal_digit :: "nat \<Rightarrow> char" where
  "decimal_digit d = ''0123456789'' ! d"

fun decimal_digits :: "nat \<Rightarrow> string" where
  "decimal_digits n =
     (if 10 \<le> n then decimal_digits (n div 10) @ [decimal_digit (n mod 10)]
      else [decimal_digit n])"

fun number_to_string :: "js_number \<Rightarrow> string" where
  "number_to_string (SafeInteger negative magnitude) =
     (if negative \<and> magnitude \<noteq> 0 then CHR ''-'' # decimal_digits (unat magnitude)
      else decimal_digits (unat magnitude))"
| "number_to_string (OtherNumber rendered) = rendered"

text \<open>
  A pending \<^verbatim>\<open>setTimeout\<close> callback of a queued call: it will call
  \<^verbatim>\<open>executeTool(toolName, parameters, context, priority)\<close> again.
\<close>

type_synonym retry = "string \<times> tool_parameters \<times> agent_context \<times> int"

record orchestrator =
  maxConcurrent :: int
  timeoutMs :: js_number
  tools :: "string \<rightharpoonup> tool"
  executionQueue :: "tool_execution list"
  runningExecutions :: "string fset"
  timers :: "retry list"
  suspended :: "suspended_call list"

definition new_orchestrator :: "int \<Rightarrow> js_number \<Rightarrow> orchestrator" where
  "new_orchestrator m t =
     \<lparr>maxConcurrent = m, timeoutMs = t, tools = Map.empty, executionQueue = [],
      runningExecutions = {||}, timers = [], suspended = []\<rparr>"

section \<open>Operations\<close>

definition registerTool :: "tool \<Rightarrow> orchestrator \<Rightarrow> orchestrator" where
  "registerTool t s = s\<lparr>tools := (tools s)(name t \<mapsto> t)\<rparr>"

text \<open>
  \<^verbatim>\<open>this.executionQueue.sort((a, b) => b.priority - a.priority)\<close>: the sort of
  ECMAScript is stable, so the result is the stable sort by descending priority.
\<close>

definition sortQueue :: "tool_execution list \<Rightarrow> tool_execution list" where
  "sortQueue q = sort_key (\<lambda>e. - priority e) q"

text \<open>
  Outcome of the synchronous prefix of \<^verbatim>\<open>executeTool\<close> (up to its first \<^verbatim>\<open>await\<close>):
  the call throws, or it queues itself and arms a retry timer, or it is admitted.
\<close>

datatype admission = Throws thrown | Queued | Admitted

text \<open>
  The prefix of \<^verbatim>\<open>executeTool\<close>; \<open>newId\<close> is what \<^verbatim>\<open>generateExecutionId()\<close> returns
  when the call gets that far.
\<close>

definition executeTool_enter ::
  "string \<Rightarrow> tool_parameters \<Rightarrow> agent_context \<Rightarrow> int \<Rightarrow> string \<Rightarrow> orchestrator
     \<Rightarrow> admission \<times> orchestrator" where
  "executeTool_enter tn ps cx pr newId s =
     (case tools s tn of
        None \<Rightarrow> (Throws (Error (''Tool not found: '' @ tn)), s)
      | Some t \<Rightarrow>
          if maxConcurrent s \<le> int (fcard (runningExecutions s)) then
            (Queued,
             s\<lparr>executionQueue :=
                  sortQueue (executionQueue s @
                    [\<lparr>tool = t, parameters = ps, ctxt = cx, priority = pr\<rparr>]),
               timers := timers s @ [(tn, ps, cx, pr)]\<rparr>)
          else
            (Admitted,
             s\<lparr>runningExecutions := finsert newId (runningExecutions s),
               suspended := suspended s @
                 [\<lparr>tool = t, parameters = ps, ctxt = cx, priority = pr,
                   toolName = tn, executionId = newId, phase = AwaitValidate\<rparr>]\<rparr>))"

definition processQueue :: "string \<Rightarrow> orchestrator \<Rightarrow> orchestrator" where
  "processQueue newId s =
     (if 0 < length (executionQueue s)
         \<and> int (fcard (runningExecutions s)) < maxConcurrent s then
        (case executionQueue s of
           [] \<Rightarrow> s
         | nextExecution # rest \<Rightarrow>
             snd (executeTool_enter (name (tool nextExecution)) (parameters nextExecution)
                    (ctxt nextExecution) (priority nextExecution) newId
                    (s\<lparr>executionQueue := rest\<rparr>)))
      else s)"

text \<open>\<^verbatim>\<open>error instanceof Error ? error.message : 'Unknown error'\<close>\<close>

fun error_message :: "thrown \<Rightarrow> string" where
  "error_message (Error m) = m"
| "error_message NonError = ''Unknown error''"

text \<open>The \<^verbatim>\<open>catch\<close> block of \<^verbatim>\<open>executeTool\<close>.\<close>

definition catch_block :: "thrown \<Rightarrow> tool_result" where
  "catch_block e =
     \<lparr>success = False, data = None,
      message = ''Tool execution failed: '' @ error_message e,
      executionTime = 0,
      errors = Some [error_message e]\<rparr>"

text \<open>The \<^verbatim>\<open>finally\<close> block: release the id, then drain.\<close>

definition release :: "string \<Rightarrow> orchestrator \<Rightarrow> orchestrator" where
  "release eid s = s\<lparr>runningExecutions := runningExecutions s |-| {|eid|}\<rparr>"

definition finally_block :: "string \<Rightarrow> string \<Rightarrow> orchestrator \<Rightarrow> orchestrator" where
  "finally_block eid newId s = processQueue newId (release eid s)"

text \<open>
  \<^verbatim>\<open>await tool.validate(parameters)\<close> followed by the check of its value: the try block
  goes on (\<open>Inr ()\<close>) or throws.
\<close>

definition validate_step :: "suspended_call \<Rightarrow> thrown + unit" where
  "validate_step c =
     (case validate (tool c) (parameters c) of
        Inl e \<Rightarrow> Inl e
      | Inr isValid \<Rightarrow>
          if \<not> isValid then Inl (Error (''Invalid parameters for tool: '' @ toolName c))
          else Inr ())"

text \<open>
  \<^verbatim>\<open>createTimeoutPromise\<close> rejects with this error when its timer fires.
\<close>

definition timeout_error :: "js_number \<Rightarrow> thrown" where
  "timeout_error ms = Error (''Tool execution timeout after '' @ number_to_string ms @ ''ms'')"

text \<open>
  \<^verbatim>\<open>Promise.race([tool.execute(parameters), createTimeoutPromise(timeoutMs)])\<close>:
  \<open>timerFirst\<close> says that the timer fired before the execution settled; an execution
  that never settles always loses. How long an execution takes is not part of the
  model: \<open>timerFirst\<close> is an input, to be given as it can happen for the tool at hand
  (the timer cannot come first against an \<^verbatim>\<open>execute\<close> that settles without waiting).
\<close>

fun race ::
  "execute_outcome \<Rightarrow> bool \<Rightarrow> js_number \<Rightarrow> thrown + tool_result \<times> writability" where
  "race (Resolves r w) False ms = Inr (r, w)"
| "race (Rejects e) False ms = Inl e"
| "race NeverSettles False ms = Inl (timeout_error ms)"
| "race x True ms = Inl (timeout_error ms)"

text \<open>
  The rest of the try block once the race has settled at clock reading \<open>now\<close>: the
  race throws, or the assignment to \<^verbatim>\<open>result.executionTime\<close> throws, or the result
  is returned with its \<^verbatim>\<open>executionTime\<close> overwritten.
\<close>

definition race_step ::
  "suspended_call \<Rightarrow> int \<Rightarrow> bool \<Rightarrow> js_number \<Rightarrow> int \<Rightarrow> thrown + tool_result" where
  "race_step c startTime timerFirst ms now =
     (case race (execute (tool c) (parameters c)) timerFirst ms of
        Inl e \<Rightarrow> Inl e
      | Inr (r, Writable) \<Rightarrow> Inr (r\<lparr>executionTime := now - startTime\<rparr>)
      | Inr (r, ReadOnly e) \<Rightarrow> Inl e)"

text \<open>What the call returns: the try block's result, or the catch block's.\<close>

definition settle :: "thrown + tool_result \<Rightarrow> tool_result" where
  "settle x = (case x of Inl e \<Rightarrow> catch_block e | Inr r \<Rightarrow> r)"

text \<open>Removing the \<open>k\<close>-th suspended call.\<close>

definition drop_nth :: "nat \<Rightarrow> 'a list \<Rightarrow> 'a list" where
  "drop_nth k xs = take k xs @ drop (Suc k) xs"

text \<open>
  The \<open>k\<close>-th suspended call resumes after \<^verbatim>\<open>await tool.validate(parameters)\<close> at clock
  reading \<open>now\<close>. It either starts the race (nothing is returned yet) or runs catch and
  finally and returns.
\<close>

definition resume_validate ::
  "nat \<Rightarrow> int \<Rightarrow> string \<Rightarrow> orchestrator \<Rightarrow> tool_result option \<times> orchestrator" where
  "resume_validate k now newId s =
     (if k < length (suspended s) \<and> phase (suspended s ! k) = AwaitValidate then
        (let c = suspended s ! k in
         case validate_step c of
           Inl e \<Rightarrow>
             (Some (catch_block e),
              finally_block (executionId c) newId (s\<lparr>suspended := drop_nth k (suspended s)\<rparr>))
         | Inr u \<Rightarrow>
             (None, s\<lparr>suspended := (suspended s)[k := c\<lparr>phase := AwaitRace now\<rparr>]\<rparr>))
      else (None, s))"

text \<open>
  The \<open>k\<close>-th suspended call resumes after the race; it returns in every case, through
  the finally block.
\<close>

definition resume_race ::
  "nat \<Rightarrow> bool \<Rightarrow> int \<Rightarrow> string \<Rightarrow> orchestrator \<Rightarrow> tool_result option \<times> orchestrator" where
  "resume_race k timerFirst now newId s =
     (if k < length (suspended s) then
        (let c = suspended s ! k in
         case phase c of
           AwaitValidate \<Rightarrow> (None, s)
         | AwaitRace startTime \<Rightarrow>
             (Some (settle (race_step c startTime timerFirst (timeoutMs s) now)),
              finally_block (executionId c) newId (s\<lparr>suspended := drop_nth k (suspended s)\<rparr>)))
      else (None, s))"

text \<open>
  The oldest retry timer fires (all timers have the same delay of 1000 ms, so they fire
  in the order they were armed) and calls \<^verbatim>\<open>executeTool\<close> again.
\<close>

definition timer_fires :: "string \<Rightarrow> orchestrator \<Rightarrow> orchestrator" where
  "timer_fires newId s =
     (case timers s of
        [] \<Rightarrow> s
      | (tn, ps, cx, pr) # rest \<Rightarrow> snd (executeTool_enter tn ps cx pr newId (s\<lparr>timers := rest\<rparr>)))"

section \<open>The orchestrator as a transition system\<close>

datatype event =
    Register tool
  | Submit string tool_parameters agent_context int string
  | TimerFires string
  | ValidateSettles nat int string
  | RaceSettles nat bool int string

fun step :: "orchestrator \<Rightarrow> event \<Rightarrow> orchestrator" where
  "step s (Register t) = registerTool t s"
| "step s (Submit tn ps cx pr newId) = snd (executeTool_enter tn ps cx pr newId s)"
| "step s (TimerFires newId) = timer_fires newId s"
| "step s (ValidateSettles k now newId) = snd (resume_validate k now newId s)"
| "step s (RaceSettles k timerFirst now newId) = snd (resume_race k timerFirst now newId s)"

definition run :: "orchestrator \<Rightarrow> event list \<Rightarrow> orchestrator" where
  "run s evs = foldl step s evs"

section \<open>A built-in tool\<close>

text \<open>\<^verbatim>\<open>params.format || 'markdown'\<close> takes the right operand when the left one is falsy.\<close>

fun js_truthy :: "js_value \<Rightarrow> bool" where
  "js_truthy JUndefined = False"
| "js_truthy JNull = False"
| "js_truthy (JBool b) = b"
| "js_truthy (JNumber n) = (n \<noteq> 0)"
| "js_truthy (JString x) = (x \<noteq> [])"
| "js_truthy (JObject kvs) = True"

text \<open>The message of the \<^verbatim>\<open>TypeError\<close> for a method call on \<^verbatim>\<open>undefined\<close> or \<^verbatim>\<open>null\<close>.\<close>

definition cannot_read :: "string \<Rightarrow> string" where
  "cannot_read what =
     ''Cannot read properties of '' @ what @ '' (reading '' @ [CHR 0x27] @ ''substring''
       @ [CHR 0x27] @ '')''"

text \<open>
  \<^verbatim>\<open>class DocumentationGeneratorTool\<close>, the built-in tool whose result is a function of
  its parameters alone. \<^verbatim>\<open>source.substring(0, 100)\<close> on a value that is not a string
  throws a \<^verbatim>\<open>TypeError\<close>; the orchestrator never gets there, since \<^verbatim>\<open>validate\<close>
  has to accept the parameters first.
\<close>

definition DocumentationGeneratorTool :: tool where
  "DocumentationGeneratorTool =
     \<lparr>name = ''documentation-generator'',
      description = ''Generates comprehensive documentation from code'',
      category = ''documentation'',
      version = ''1.0.0'',
      execute = (\<lambda>params.
        case params ''source'' of
          None \<Rightarrow> Rejects (Error (cannot_read ''undefined''))
        | Some JUndefined \<Rightarrow> Rejects (Error (cannot_read ''undefined''))
        | Some JNull \<Rightarrow> Rejects (Error (cannot_read ''null''))
        | Some (JString source) \<Rightarrow>
            Resolves
              \<lparr>success = True,
               data = Some (JObject
                 [(''generatedDocs'',
                   JString (''# Generated Documentation'' @ [CHR 0x0A, CHR 0x0A] @
                            ''Based on source: '' @ take 100 source @ ''...'')),
                  (''format'',
                   (case params ''format'' of
                      None \<Rightarrow> JString ''markdown''
                    | Some v \<Rightarrow> if js_truthy v then v else JString ''markdown''))]),
               message = ''Documentation generated successfully'',
               executionTime = 0,
               errors = None\<rparr>
              Writable
        | Some v \<Rightarrow> Rejects (Error ''source.substring is not a function'')),
      validate = (\<lambda>params.
        Inr (case params ''source'' of Some (JString source) \<Rightarrow> True | _ \<Rightarrow> False))\<rparr>"

section \<open>Properties of states\<close>

text \<open>The backlog is in order of descending priority.\<close>

definition queue_sorted :: "tool_execution list \<Rightarrow> bool" where
  "queue_sorted q = sorted_wrt (\<lambda>a b. priority b \<le> priority a) q"

section \<open>Example inputs\<close>

definition session :: "string \<Rightarrow> agent_context" where
  "session sid = \<lparr>sessionId = sid, userId = ''user'', timestamp = 0, metadata = Map.empty\<rparr>"

definition source_params :: "string \<Rightarrow> tool_parameters" where
  "source_params src = [''source'' \<mapsto> JString src]"

text \<open>The default timeout of 30000 ms, and a timeout of 50 ms.\<close>

definition thirty_seconds :: js_number where
  "thirty_seconds = SafeInteger False 30000"

definition fifty_ms :: js_number where
  "fifty_ms = SafeInteger False 50"

text \<open>A tool that reports failure by returning a result, with no message and no errors.\<close>

definition silent_failure_tool :: tool where
  "silent_failure_tool =
     \<lparr>name = ''silent'', description = [], category = ''example'', version = ''1.0.0'',
      execute = (\<lambda>params.
        Resolves \<lparr>success = False, data = None, message = [], executionTime = 0,
                    errors = None\<rparr> Writable),
      validate = (\<lambda>params. Inr True)\<rparr>"

text \<open>A tool whose \<^verbatim>\<open>execute\<close> throws.\<close>

definition throwing_tool :: tool where
  "throwing_tool =
     \<lparr>name = ''throwing'', description = [], category = ''example'', version = ''1.0.0'',
      execute = (\<lambda>params. Rejects (Error ''boom'')),
      validate = (\<lambda>params. Inr True)\<rparr>"

text \<open>A tool whose \<^verbatim>\<open>execute\<close> never settles.\<close>

definition hanging_tool :: tool where
  "hanging_tool =
     \<lparr>name = ''hanging'', description = [], category = ''example'', version = ''1.0.0'',
      execute = (\<lambda>params. NeverSettles),
      validate = (\<lambda>params. Inr True)\<rparr>"

text \<open>A tool whose \<^verbatim>\<open>execute\<close> waits for its work and then resolves with success.\<close>

definition slow_tool :: tool where
  "slow_tool =
     \<lparr>name = ''slow'', description = [], category = ''example'', version = ''1.0.0'',
      execute = (\<lambda>params.
        Resolves \<lparr>success = True, data = None, message = ''done'', executionTime = 0,
                    errors = None\<rparr> Writable),
      validate = (\<lambda>params. Inr True)\<rparr>"

text \<open>
  A tool that resolves with a frozen result (\<^verbatim>\<open>Object.freeze\<close>): assigning to its
  \<^verbatim>\<open>executionTime\<close> throws a \<^verbatim>\<open>TypeError\<close>.
\<close>

definition read_only_error :: thrown where
  "read_only_error =
     Error (''Cannot assign to read only property '' @ [CHR 0x27] @ ''executionTime''
            @ [CHR 0x27] @ '' of object '' @ [CHR 0x27] @ ''#<Object>'' @ [CHR 0x27])"

definition frozen_result_tool :: tool where
  "frozen_result_tool =
     \<lparr>name = ''frozen'', description = [], category = ''example'', version = ''1.0.0'',
      execute = (\<lambda>params.
        Resolves \<lparr>success = True, data = None, message = ''done'', executionTime = 0,
                    errors = None\<rparr> (ReadOnly read_only_error)),
      validate = (\<lambda>params. Inr True)\<rparr>"

text \<open>
  One slot. Call X is admitted, validates and starts its race at clock reading 100.
  Call A is submitted once, finds the slot taken and is queued; its retry timer fires
  while X still runs, so it is queued again. X finishes at 1500 and the drain promotes
  A, which validates and starts its race at 1510.
\<close>

definition busy_events :: "event list" where
  "busy_events =
     [Register DocumentationGeneratorTool,
      Submit ''documentation-generator'' (source_params ''x'') (session ''X'') 5 ''exec_1'',
      ValidateSettles 0 100 ''exec_2'',
      Submit ''documentation-generator'' (source_params ''a'') (session ''A'') 5 ''exec_3'',
      TimerFires ''exec_4'',
      RaceSettles 0 False 1500 ''exec_5'',
      ValidateSettles 0 1510 ''exec_6'']"

text \<open>
  The same run, until A's first execution has finished at 1600, the drain has promoted
  A's second queue entry, and that one has started its race at 1610.
\<close>

definition busy_events_later :: "event list" where
  "busy_events_later =
     busy_events @ [RaceSettles 0 False 1600 ''exec_7'', ValidateSettles 0 1610 ''exec_8'']"

text \<open>Whether an event is a call of \<^verbatim>\<open>executeTool\<close> by the given session.\<close>

fun submitted_by :: "string \<Rightarrow> event \<Rightarrow> bool" where
  "submitted_by sid (Submit tn ps cx pr newId) = (sessionId cx = sid)"
| "submitted_by sid ev = False"

text \<open>The entry of call A in the queue, and call A suspended in its race.\<close>

definition entry_A :: tool_execution where
  "entry_A = \<lparr>tool = DocumentationGeneratorTool, parameters = source_params ''a'',
              ctxt = session ''A'', priority = 5\<rparr>"

definition racing_A :: "string \<Rightarrow> int \<Rightarrow> suspended_call" where
  "racing_A eid startTime =
     \<lparr>tool = DocumentationGeneratorTool, parameters = source_params ''a'',
      ctxt = session ''A'', priority = 5, toolName = ''documentation-generator'',
      executionId = eid, phase = AwaitRace startTime\<rparr>"

text \<open>An orchestrator with one slot and the documentation tool, nothing running.\<close>

definition idle_state :: orchestrator where
  "idle_state = registerTool DocumentationGeneratorTool (new_orchestrator 1 thirty_seconds)"

text \<open>One slot, taken by a call that waits for its validation.\<close>

definition full_state :: orchestrator where
  "full_state =
     run (new_orchestrator 1 thirty_seconds)
       [Register DocumentationGeneratorTool,
        Submit ''documentation-generator'' (source_params ''x'') (session ''X'') 5 ''exec_1'']"

text \<open>One slot, taken by a call without a \<^verbatim>\<open>source\<close> parameter that waits for its validation.\<close>

definition invalid_state :: orchestrator where
  "invalid_state =
     run (new_orchestrator 1 thirty_seconds)
       [Register DocumentationGeneratorTool,
        Submit ''documentation-generator'' Map.empty (session ''X'') 5 ''exec_1'']"

text \<open>
  A state with one call of the given tool in its race, started at clock reading 100,
  under the given timeout.
\<close>

definition racing_state :: "tool \<Rightarrow> js_number \<Rightarrow> orchestrator" where
  "racing_state t ms =
     run (new_orchestrator 1 ms)
       [Register t, Submit (name t) (source_params ''x'') (session ''X'') 5 ''exec_1'',
        ValidateSettles 0 100 ''exec_2'']"

text \<open>Three calls queued behind one running call, with priorities 1, 5 and 5.\<close>

definition backlog_events :: "event list" where
  "backlog_events =
     [Register DocumentationGeneratorTool,
      Submit ''documentation-generator'' (source_params ''x'') (session ''X'') 5 ''exec_1'',
      Submit ''documentation-generator'' (source_params ''low'') (session ''L'') 1 ''exec_2'',
      Submit ''documentation-generator'' (source_params ''first'') (session ''F'') 5 ''exec_3'',
      Submit ''documentation-generator'' (source_params ''second'') (session ''S'') 5 ''exec_4'']"

definition backlog_state :: orchestrator where
  "backlog_state = run (new_orchestrator 1 thirty_seconds) backlog_events"

definition entry_of :: "string \<Rightarrow> string \<Rightarrow> int \<Rightarrow> tool_execution" where
  "entry_of src sid pr =
     \<lparr>tool = DocumentationGeneratorTool, parameters = source_params src,
      ctxt = session sid, priority = pr\<rparr>"


section \<open>Evaluation of the examples\<close>

lemma doc_name: "name DocumentationGeneratorTool = ''documentation-generator''"
  by (simp add: DocumentationGeneratorTool_def)

lemma doc_validate_source: "validate DocumentationGeneratorTool (source_params src) = Inr True"
  by (simp add: DocumentationGeneratorTool_def source_params_def)

lemma doc_validate_empty: "validate DocumentationGeneratorTool Map.empty = Inr False"
  by (simp add: DocumentationGeneratorTool_def)

lemmas eval_simps =
  run_def new_orchestrator_def registerTool_def executeTool_enter_def processQueue_def
  timer_fires_def resume_validate_def resume_race_def finally_block_def release_def
  validate_step_def drop_nth_def sortQueue_def Let_def
  doc_name doc_validate_source doc_validate_empty
  fcard_fempty fcard_finsert_if

lemma busy_state:
  "run (new_orchestrator 1 thirty_seconds) busy_events =
     \<lparr>maxConcurrent = 1, timeoutMs = thirty_seconds,
      tools = [''documentation-generator'' \<mapsto> DocumentationGeneratorTool],
      executionQueue = [entry_A],
      runningExecutions = {|''exec_5''|},
      timers = [(''documentation-generator'', source_params ''a'', session ''A'', 5)],
      suspended = [racing_A ''exec_5'' 1510]\<rparr>"
  by (simp add: busy_events_def entry_A_def racing_A_def eval_simps)

lemma busy_state_later:
  "run (new_orchestrator 1 thirty_seconds) busy_events_later =
     \<lparr>maxConcurrent = 1, timeoutMs = thirty_seconds,
      tools = [''documentation-generator'' \<mapsto> DocumentationGeneratorTool],
      executionQueue = [],
      runningExecutions = {|''exec_7''|},
      timers = [(''documentation-generator'', source_params ''a'', session ''A'', 5)],
      suspended = [racing_A ''exec_7'' 1610]\<rparr>"
  by (simp add: busy_events_later_def busy_events_def entry_A_def racing_A_def eval_simps)

lemma full_state_eq:
  "full_state =
     \<lparr>maxConcurrent = 1, timeoutMs = thirty_seconds,
      tools = [''documentation-generator'' \<mapsto> DocumentationGeneratorTool],
      executionQueue = [],
      runningExecutions = {|''exec_1''|},
      timers = [],
      suspended = [\<lparr>tool = DocumentationGeneratorTool, parameters = source_params ''x'',
        ctxt = session ''X'', priority = 5, toolName = ''documentation-generator'',
        executionId = ''exec_1'', phase = AwaitValidate\<rparr>]\<rparr>"
  by (simp add: full_state_def eval_simps)

lemma racing_state_eq:
  "validate t (source_params ''x'') = Inr True \<Longrightarrow>
   racing_state t ms =
     \<lparr>maxConcurrent = 1, timeoutMs = ms,
      tools = [name t \<mapsto> t],
      executionQueue = [],
      runningExecutions = {|''exec_1''|},
      timers = [],
      suspended = [\<lparr>tool = t, parameters = source_params ''x'',
        ctxt = session ''X'', priority = 5, toolName = name t,
        executionId = ''exec_1'', phase = AwaitRace 100\<rparr>]\<rparr>"
  by (simp add: racing_state_def eval_simps)

lemma invalid_state_eq:
  "invalid_state =
     \<lparr>maxConcurrent = 1, timeoutMs = thirty_seconds,
      tools = [''documentation-generator'' \<mapsto> DocumentationGeneratorTool],
      executionQueue = [],
      runningExecutions = {|''exec_1''|},
      timers = [],
      suspended = [\<lparr>tool = DocumentationGeneratorTool, parameters = Map.empty,
        ctxt = session ''X'', priority = 5, toolName = ''documentation-generator'',
        executionId = ''exec_1'', phase = AwaitValidate\<rparr>]\<rparr>"
  by (simp add: invalid_state_def eval_simps)

lemma idle_state_eq:
  "idle_state =
     \<lparr>maxConcurrent = 1, timeoutMs = thirty_seconds,
      tools = [''documentation-generator'' \<mapsto> DocumentationGeneratorTool],
      executionQueue = [],
      runningExecutions = {||},
      timers = [],
      suspended = []\<rparr>"
  by (simp add: idle_state_def eval_simps)

lemma backlog_state_eq:
  "backlog_state =
     \<lparr>maxConcurrent = 1, timeoutMs = thirty_seconds,
      tools = [''documentation-generator'' \<mapsto> DocumentationGeneratorTool],
      executionQueue =
        [entry_of ''first'' ''F'' 5, entry_of ''second'' ''S'' 5, entry_of ''low'' ''L'' 1],
      runningExecutions = {|''exec_1''|},
      timers =
        [(''documentation-generator'', source_params ''low'', session ''L'', 1),
         (''documentation-generator'', source_params ''first'', session ''F'', 5),
         (''documentation-generator'', source_params ''second'', session ''S'', 5)],
      suspended = [\<lparr>tool = DocumentationGeneratorTool, parameters = source_params ''x'',
        ctxt = session ''X'', priority = 5, toolName = ''documentation-generator'',
        executionId = ''exec_1'', phase = AwaitValidate\<rparr>]\<rparr>"
  by (simp add: backlog_state_def backlog_events_def entry_of_def eval_simps)

section \<open>Invariants of the transition system\<close>

lemma enter_maxConcurrent:
  "maxConcurrent (snd (executeTool_enter tn ps cx pr nid s)) = maxConcurrent s"
  by (simp add: executeTool_enter_def split: option.splits)

text \<open>
  Any bound on the running set that is not below the configured maximum is kept: a call
  is admitted only when the set is strictly smaller than the maximum.
\<close>

lemma enter_bound:
  "maxConcurrent s \<le> b \<Longrightarrow> int (fcard (runningExecutions s)) \<le> b \<Longrightarrow>
   int (fcard (runningExecutions (snd (executeTool_enter tn ps cx pr nid s)))) \<le> b"
  by (auto simp add: executeTool_enter_def fcard_finsert_if split: option.splits)

lemma processQueue_maxConcurrent: "maxConcurrent (processQueue nid s) = maxConcurrent s"
  by (simp add: processQueue_def enter_maxConcurrent split: list.splits)

lemma processQueue_bound:
  assumes m: "maxConcurrent s \<le> b" and b: "int (fcard (runningExecutions s)) \<le> b"
  shows "int (fcard (runningExecutions (processQueue nid s))) \<le> b"
proof (cases "executionQueue s")
  case Nil
  then show ?thesis using b by (simp add: processQueue_def)
next
  case (Cons e rest)
  let ?s = "s\<lparr>executionQueue := rest\<rparr>"
  have "maxConcurrent ?s \<le> b" and "int (fcard (runningExecutions ?s)) \<le> b"
    using m b by simp_all
  from enter_bound [OF this] show ?thesis using b Cons
    by (simp add: processQueue_def)
qed

lemma release_bound:
  assumes b: "int (fcard (runningExecutions s)) \<le> b"
  shows "int (fcard (runningExecutions (release eid s))) \<le> b"
proof -
  have "fcard (runningExecutions s |-| {|eid|}) \<le> fcard (runningExecutions s)"
    by (rule fcard_fminus1_le)
  then show ?thesis using b by (simp add: release_def)
qed

lemma finally_block_maxConcurrent: "maxConcurrent (finally_block eid nid s) = maxConcurrent s"
  by (simp add: finally_block_def processQueue_maxConcurrent release_def)

lemma finally_block_bound:
  assumes m: "maxConcurrent s \<le> b" and b: "int (fcard (runningExecutions s)) \<le> b"
  shows "int (fcard (runningExecutions (finally_block eid nid s))) \<le> b"
proof -
  have "maxConcurrent (release eid s) \<le> b" using m by (simp add: release_def)
  moreover have "int (fcard (runningExecutions (release eid s))) \<le> b"
    using b by (rule release_bound)
  ultimately show ?thesis unfolding finally_block_def by (rule processQueue_bound)
qed

lemma step_maxConcurrent: "maxConcurrent (step s e) = maxConcurrent s"
  by (cases e)
     (simp_all add: registerTool_def enter_maxConcurrent timer_fires_def resume_validate_def
        resume_race_def finally_block_maxConcurrent Let_def
        split: list.splits prod.splits sum.splits phase.splits)

lemma step_bound:
  assumes m: "maxConcurrent s \<le> b" and b: "int (fcard (runningExecutions s)) \<le> b"
  shows "int (fcard (runningExecutions (step s e))) \<le> b"
proof (cases e)
  case (Register t)
  then show ?thesis using b by (simp add: registerTool_def)
next
  case (Submit tn ps cx pr nid)
  then show ?thesis using m b by (simp add: enter_bound)
next
  case (TimerFires nid)
  show ?thesis
  proof (cases "timers s")
    case Nil
    then show ?thesis using b TimerFires by (simp add: timer_fires_def)
  next
    case (Cons r rest)
    obtain tn ps cx pr where r: "r = (tn, ps, cx, pr)" by (cases r) auto
    have "maxConcurrent (s\<lparr>timers := rest\<rparr>) \<le> b"
      and "int (fcard (runningExecutions (s\<lparr>timers := rest\<rparr>))) \<le> b"
      using m b by simp_all
    from enter_bound [OF this] show ?thesis using TimerFires Cons r
      by (simp add: timer_fires_def)
  qed
next
  case (ValidateSettles k now nid)
  have "\<And>xs. maxConcurrent (s\<lparr>suspended := xs\<rparr>) \<le> b"
    and "\<And>xs. int (fcard (runningExecutions (s\<lparr>suspended := xs\<rparr>))) \<le> b"
    using m b by simp_all
  from finally_block_bound [OF this] show ?thesis using ValidateSettles b
    by (simp add: resume_validate_def Let_def split: sum.splits)
next
  case (RaceSettles k tf now nid)
  have "\<And>xs. maxConcurrent (s\<lparr>suspended := xs\<rparr>) \<le> b"
    and "\<And>xs. int (fcard (runningExecutions (s\<lparr>suspended := xs\<rparr>))) \<le> b"
    using m b by simp_all
  from finally_block_bound [OF this] show ?thesis using RaceSettles b
    by (simp add: resume_race_def Let_def split: phase.splits)
qed

lemma run_maxConcurrent: "maxConcurrent (run s evs) = maxConcurrent s"
  unfolding run_def by (induction evs arbitrary: s) (simp_all add: step_maxConcurrent)

lemma run_bound:
  "maxConcurrent s \<le> b \<Longrightarrow> int (fcard (runningExecutions s)) \<le> b \<Longrightarrow>
   int (fcard (runningExecutions (run s evs))) \<le> b"
  unfolding run_def
proof (induction evs arbitrary: s)
  case Nil
  then show ?case by simp
next
  case (Cons e evs)
  have "maxConcurrent (step s e) \<le> b"
    using Cons.prems(1) by (simp add: step_maxConcurrent)
  moreover have "int (fcard (runningExecutions (step s e))) \<le> b"
    using Cons.prems by (rule step_bound)
  ultimately show ?case using Cons.IH by simp
qed

text \<open>
  C1. Bounded concurrency: whatever is registered and submitted and however the suspended
  calls and timers resume, the size of \<^verbatim>\<open>runningExecutions\<close> never exceeds
  \<^verbatim>\<open>config.tools.maxConcurrent\<close>, for a maximum that is not negative. (Under a
  negative maximum no call is ever admitted and the set stays empty.)
\<close>

theorem bounded_concurrency:
  "(0 \<le> m \<longrightarrow> int (fcard (runningExecutions (run (new_orchestrator m t) evs))) \<le> m)
   \<and> (m < 0 \<longrightarrow> runningExecutions (run (new_orchestrator m t) evs) = {||})"
proof -
  have "maxConcurrent (new_orchestrator m t) \<le> max 0 m"
    and "int (fcard (runningExecutions (new_orchestrator m t))) \<le> max 0 m"
    by (simp_all add: new_orchestrator_def fcard_fempty)
  then have "int (fcard (runningExecutions (run (new_orchestrator m t) evs))) \<le> max 0 m"
    by (rule run_bound)
  then show ?thesis by auto
qed

theorem bounded_concurrency_witness:
  "(0::int) \<le> 1
   \<and> int (fcard (runningExecutions (run (new_orchestrator 1 thirty_seconds) busy_events))) \<le> 1
   \<and> runningExecutions (run (new_orchestrator 1 thirty_seconds) busy_events) = {|''exec_5''|}
   \<and> (-1::int) < 0
   \<and> runningExecutions (run (new_orchestrator (-1) thirty_seconds) busy_events) = {||}"
  using bounded_concurrency [of 1 thirty_seconds busy_events]
    bounded_concurrency [of "-1" thirty_seconds busy_events]
  by (simp add: busy_state)


section \<open>Registry\<close>

text \<open>
  C8. Registry, last write wins: \<^verbatim>\<open>registerTool(t)\<close> stores \<open>t\<close> under \<open>t.name\<close>,
  over whatever was registered under that name, touches no other name and nothing else
  of the orchestrator, and never fails; the lookup that \<^verbatim>\<open>executeTool\<close> then does for
  that name finds \<open>t\<close>, so the call is queued or admitted with \<open>t\<close> as its tool.
\<close>

theorem registerTool_last_write_wins:
  "tools (registerTool t s) n = (if n = name t then Some t else tools s n)
   \<and> tools (registerTool t (registerTool t' s)) (name t) = Some t
   \<and> (registerTool t s)\<lparr>tools := tools s\<rparr> = s
   \<and> executeTool_enter (name t) ps cx pr nid (registerTool t s) =
       (if maxConcurrent s \<le> int (fcard (runningExecutions s)) then
          (Queued,
           (registerTool t s)
             \<lparr>executionQueue :=
                sortQueue (executionQueue s @
                  [\<lparr>tool = t, parameters = ps, ctxt = cx, priority = pr\<rparr>]),
              timers := timers s @ [(name t, ps, cx, pr)]\<rparr>)
        else
          (Admitted,
           (registerTool t s)
             \<lparr>runningExecutions := finsert nid (runningExecutions s),
              suspended := suspended s @
                [\<lparr>tool = t, parameters = ps, ctxt = cx, priority = pr,
                  toolName = name t, executionId = nid, phase = AwaitValidate\<rparr>]\<rparr>))"
  by (simp add: registerTool_def executeTool_enter_def)

section \<open>Rejection of unknown tools\<close>

text \<open>
  C3. Unknown tool: a call that names a tool missing from the registry fails at once with
  the error \<^verbatim>\<open>Tool not found: <name>\<close> and leaves the orchestrator as it was, so it
  takes no slot of \<^verbatim>\<open>runningExecutions\<close> and the execution queue keeps its length.
\<close>

theorem unknown_tool_fails_fast:
  "tools s tn = None \<Longrightarrow>
   executeTool_enter tn ps cx pr nid s = (Throws (Error (''Tool not found: '' @ tn)), s)
   \<and> runningExecutions (snd (executeTool_enter tn ps cx pr nid s)) = runningExecutions s
   \<and> length (executionQueue (snd (executeTool_enter tn ps cx pr nid s)))
       = length (executionQueue s)"
  by (simp add: executeTool_enter_def)

theorem unknown_tool_fails_fast_witness:
  "tools full_state ''no-such-tool'' = None
   \<and> executeTool_enter ''no-such-tool'' (source_params ''x'') (session ''X'') 5 ''exec_9''
        full_state
       = (Throws (Error ''Tool not found: no-such-tool''), full_state)
   \<and> runningExecutions (snd (executeTool_enter ''no-such-tool'' (source_params ''x'')
        (session ''X'') 5 ''exec_9'' full_state)) = {|''exec_1''|}"
proof -
  have h: "tools full_state ''no-such-tool'' = None"
    by (simp add: full_state_eq)
  have r: "runningExecutions full_state = {|''exec_1''|}"
    by (simp add: full_state_eq)
  show ?thesis
    using h r unknown_tool_fails_fast [OF h, where ps = "source_params ''x''"
        and cx = "session ''X''" and pr = 5 and nid = "''exec_9''"]
    by simp
qed

section \<open>The drain step\<close>

text \<open>
  C10. Single promotion: \<^verbatim>\<open>processQueue\<close> changes nothing when the queue is empty or
  the running set is at the maximum; otherwise it takes exactly the head entry off the
  queue and calls \<^verbatim>\<open>executeTool\<close> for it, which (the tool being registered) admits
  that one call: one new id in \<^verbatim>\<open>runningExecutions\<close>, one new suspended call, and the
  rest of the queue untouched.
\<close>

theorem processQueue_single_promotion:
  "(executionQueue s = [] \<or> maxConcurrent s \<le> int (fcard (runningExecutions s))
      \<longrightarrow> processQueue nid s = s)
   \<and> (executionQueue s = e # rest \<and> int (fcard (runningExecutions s)) < maxConcurrent s
      \<longrightarrow> processQueue nid s =
          snd (executeTool_enter (name (tool e)) (parameters e) (ctxt e) (priority e) nid
                 (s\<lparr>executionQueue := rest\<rparr>))
        \<and> executionQueue (processQueue nid s) = rest
        \<and> (case tools s (name (tool e)) of
             None \<Rightarrow> processQueue nid s = s\<lparr>executionQueue := rest\<rparr>
           | Some t \<Rightarrow>
               processQueue nid s =
                 s\<lparr>executionQueue := rest,
                   runningExecutions := finsert nid (runningExecutions s),
                   suspended := suspended s @
                     [\<lparr>tool = t, parameters = parameters e, ctxt = ctxt e,
                       priority = priority e, toolName = name (tool e),
                       executionId = nid, phase = AwaitValidate\<rparr>]\<rparr>))"
  by (auto simp add: processQueue_def executeTool_enter_def split: option.splits)

theorem processQueue_single_promotion_witness:
  "executionQueue (release ''exec_1'' backlog_state) =
       entry_of ''first'' ''F'' 5 # [entry_of ''second'' ''S'' 5, entry_of ''low'' ''L'' 1]
   \<and> int (fcard (runningExecutions (release ''exec_1'' backlog_state)))
       < maxConcurrent (release ''exec_1'' backlog_state)
   \<and> executionQueue (processQueue ''exec_5'' (release ''exec_1'' backlog_state))
       = [entry_of ''second'' ''S'' 5, entry_of ''low'' ''L'' 1]
   \<and> runningExecutions (processQueue ''exec_5'' (release ''exec_1'' backlog_state))
       = {|''exec_5''|}
   \<and> maxConcurrent backlog_state \<le> int (fcard (runningExecutions backlog_state))
   \<and> processQueue ''exec_5'' backlog_state = backlog_state"
proof -
  let ?rest = "[entry_of ''second'' ''S'' 5, entry_of ''low'' ''L'' 1]"
  have q: "executionQueue (release ''exec_1'' backlog_state) = entry_of ''first'' ''F'' 5 # ?rest"
    by (simp add: release_def backlog_state_eq)
  have c: "int (fcard (runningExecutions (release ''exec_1'' backlog_state)))
      < maxConcurrent (release ''exec_1'' backlog_state)"
    by (simp add: release_def backlog_state_eq fcard_fempty)
  have f: "maxConcurrent backlog_state \<le> int (fcard (runningExecutions backlog_state))"
    by (simp add: backlog_state_eq fcard_finsert_if fcard_fempty)
  have t: "tools (release ''exec_1'' backlog_state) (name (tool (entry_of ''first'' ''F'' 5)))
      = Some DocumentationGeneratorTool"
    by (simp add: release_def backlog_state_eq entry_of_def doc_name)
  have r: "runningExecutions (release ''exec_1'' backlog_state) = {||}"
    by (simp add: release_def backlog_state_eq)
  note promote = processQueue_single_promotion [where s = "release ''exec_1'' backlog_state"
      and e = "entry_of ''first'' ''F'' 5" and rest = ?rest and nid = "''exec_5''"]
  note idle = processQueue_single_promotion [where s = backlog_state
      and e = "entry_of ''first'' ''F'' 5" and rest = ?rest and nid = "''exec_5''"]
  have a: "executionQueue (processQueue ''exec_5'' (release ''exec_1'' backlog_state)) = ?rest"
    using promote q c by blast
  have "case tools (release ''exec_1'' backlog_state)
               (name (tool (entry_of ''first'' ''F'' 5))) of
          None \<Rightarrow> processQueue ''exec_5'' (release ''exec_1'' backlog_state) =
            (release ''exec_1'' backlog_state)\<lparr>executionQueue := ?rest\<rparr>
        | Some t \<Rightarrow>
            processQueue ''exec_5'' (release ''exec_1'' backlog_state) =
              (release ''exec_1'' backlog_state)
                \<lparr>executionQueue := ?rest,
                  runningExecutions :=
                    finsert ''exec_5'' (runningExecutions (release ''exec_1'' backlog_state)),
                  suspended := suspended (release ''exec_1'' backlog_state) @
                    [\<lparr>tool = t, parameters = parameters (entry_of ''first'' ''F'' 5),
                      ctxt = ctxt (entry_of ''first'' ''F'' 5),
                      priority = priority (entry_of ''first'' ''F'' 5),
                      toolName = name (tool (entry_of ''first'' ''F'' 5)),
                      executionId = ''exec_5'', phase = AwaitValidate\<rparr>]\<rparr>"
    using promote q c by blast
  then have b: "runningExecutions (processQueue ''exec_5'' (release ''exec_1'' backlog_state))
      = {|''exec_5''|}"
    by (simp add: t r)
  have d: "processQueue ''exec_5'' backlog_state = backlog_state"
    using idle f by blast
  show ?thesis
    using q c a b f d by blast
qed

section \<open>Release of the slot\<close>

lemma drop_nth_snoc: "drop_nth (length xs) (xs @ [c]) = xs"
  by (simp add: drop_nth_def)

text \<open>
  C5. No capacity leak: a suspended call that reaches its end, whether its race is won by
  the execution (with a successful or an unsuccessful result), by a throw or by the
  timeout, or its validation fails, returns a result and leaves through the finally
  block: its id is deleted from \<^verbatim>\<open>runningExecutions\<close> and \<^verbatim>\<open>processQueue\<close> runs on
  the state so obtained. The deletion takes the id out, lowers the size by one when the
  id was there, and gives back the set of before the admission when the id was fresh.
\<close>

theorem no_capacity_leak:
  "(k < length (suspended s) \<and> phase (suspended s ! k) = AwaitRace st \<longrightarrow>
      fst (resume_race k timerFirst now nid s) \<noteq> None
      \<and> snd (resume_race k timerFirst now nid s) =
          processQueue nid (release (executionId (suspended s ! k))
            (s\<lparr>suspended := drop_nth k (suspended s)\<rparr>)))
   \<and> (k < length (suspended s) \<and> phase (suspended s ! k) = AwaitValidate
        \<and> validate_step (suspended s ! k) = Inl e \<longrightarrow>
      fst (resume_validate k now nid s) \<noteq> None
      \<and> snd (resume_validate k now nid s) =
          processQueue nid (release (executionId (suspended s ! k))
            (s\<lparr>suspended := drop_nth k (suspended s)\<rparr>)))
   \<and> eid |\<notin>| runningExecutions (release eid s)
   \<and> (eid |\<in>| runningExecutions s \<longrightarrow>
        fcard (runningExecutions (release eid s)) = fcard (runningExecutions s) - 1)
   \<and> (fst (executeTool_enter tn ps cx pr eid s) = Admitted \<and> eid |\<notin>| runningExecutions s \<longrightarrow>
        runningExecutions (release eid (snd (executeTool_enter tn ps cx pr eid s)))
          = runningExecutions s)"
  by (auto simp add: resume_race_def resume_validate_def finally_block_def Let_def release_def
        fcard_fminus_fsingleton executeTool_enter_def
      split: option.splits if_splits)


theorem no_capacity_leak_witness:
  "0 < length (suspended (run (new_orchestrator 1 thirty_seconds) busy_events))
   \<and> phase (suspended (run (new_orchestrator 1 thirty_seconds) busy_events) ! 0) = AwaitRace 1510
   \<and> fst (resume_race 0 True 31510 ''exec_9'' (run (new_orchestrator 1 thirty_seconds) busy_events))
       \<noteq> None
   \<and> ''exec_5'' |\<in>| runningExecutions (run (new_orchestrator 1 thirty_seconds) busy_events)
   \<and> runningExecutions (release ''exec_5'' (run (new_orchestrator 1 thirty_seconds) busy_events)) = {||}
   \<and> validate_step (suspended invalid_state ! 0)
       = Inl (Error ''Invalid parameters for tool: documentation-generator'')
   \<and> snd (resume_validate 0 100 ''exec_9'' invalid_state) =
       processQueue ''exec_9'' (release ''exec_1'' (invalid_state\<lparr>suspended := []\<rparr>))
   \<and> fst (executeTool_enter ''documentation-generator'' (source_params ''x'') (session ''X'') 5
        ''exec_1'' idle_state) = Admitted
   \<and> runningExecutions (release ''exec_1'' (snd (executeTool_enter ''documentation-generator''
        (source_params ''x'') (session ''X'') 5 ''exec_1'' idle_state))) = {||}"
proof -
  let ?b = "run (new_orchestrator 1 thirty_seconds) busy_events"
  have h1: "0 < length (suspended ?b) \<and> phase (suspended ?b ! 0) = AwaitRace 1510"
    by (simp add: busy_state racing_A_def)
  have h2: "''exec_5'' |\<in>| runningExecutions ?b"
    by (simp add: busy_state)
  have h3: "0 < length (suspended invalid_state)
      \<and> phase (suspended invalid_state ! 0) = AwaitValidate
      \<and> validate_step (suspended invalid_state ! 0)
          = Inl (Error ''Invalid parameters for tool: documentation-generator'')"
    by (simp add: invalid_state_eq validate_step_def doc_validate_empty)
  have h4: "fst (executeTool_enter ''documentation-generator'' (source_params ''x'')
        (session ''X'') 5 ''exec_1'' idle_state) = Admitted
      \<and> ''exec_1'' |\<notin>| runningExecutions idle_state"
    by (simp add: idle_state_eq executeTool_enter_def fcard_fempty)
  note racing = no_capacity_leak [where s = ?b and k = 0 and st = 1510 and timerFirst = True
      and now = 31510 and nid = "''exec_9''" and eid = "''exec_5''"]
  note invalid = no_capacity_leak [where s = invalid_state and k = 0 and now = 100
      and nid = "''exec_9''"
      and e = "Error ''Invalid parameters for tool: documentation-generator''"]
  note fresh = no_capacity_leak [where s = idle_state and eid = "''exec_1''"
      and tn = "''documentation-generator''" and ps = "source_params ''x''"
      and cx = "session ''X''" and pr = 5]
  have a: "fst (resume_race 0 True 31510 ''exec_9'' ?b) \<noteq> None"
    using racing h1 by blast
  have "fcard (runningExecutions (release ''exec_5'' ?b)) = fcard (runningExecutions ?b) - 1"
    using racing h2 by blast
  then have b: "runningExecutions (release ''exec_5'' ?b) = {||}"
    by (simp add: busy_state fcard_finsert_if fcard_fempty)
  have "snd (resume_validate 0 100 ''exec_9'' invalid_state) =
      processQueue ''exec_9'' (release (executionId (suspended invalid_state ! 0))
        (invalid_state\<lparr>suspended := drop_nth 0 (suspended invalid_state)\<rparr>))"
    using invalid h3 by blast
  then have c: "snd (resume_validate 0 100 ''exec_9'' invalid_state) =
      processQueue ''exec_9'' (release ''exec_1'' (invalid_state\<lparr>suspended := []\<rparr>))"
    by (simp add: invalid_state_eq drop_nth_def)
  have "runningExecutions (release ''exec_1'' (snd (executeTool_enter
        ''documentation-generator'' (source_params ''x'') (session ''X'') 5 ''exec_1''
        idle_state))) = runningExecutions idle_state"
    using fresh h4 by blast
  then have d: "runningExecutions (release ''exec_1'' (snd (executeTool_enter
        ''documentation-generator'' (source_params ''x'') (session ''X'') 5 ''exec_1''
        idle_state))) = {||}"
    by (simp add: idle_state_eq)
  show ?thesis
    using h1 h2 h3 h4 a b c d by blast
qed

section \<open>Invalid parameters\<close>

text \<open>
  C2, as stated, fails: \<^verbatim>\<open>executeTool\<close> validates only after the capacity check and after
  the id has been added to \<^verbatim>\<open>runningExecutions\<close>. With the one slot taken, a call of
  the documentation tool without a \<^verbatim>\<open>source\<close> (which its \<^verbatim>\<open>validate\<close> rejects) is
  queued; with the slot free, it takes the slot.
\<close>

theorem invalid_parameters_counterexample:
  "validate DocumentationGeneratorTool Map.empty = Inr False
   \<and> fst (executeTool_enter ''documentation-generator'' Map.empty (session ''B'') 5 ''exec_2''
        full_state) = Queued
   \<and> length (executionQueue (snd (executeTool_enter ''documentation-generator'' Map.empty
        (session ''B'') 5 ''exec_2'' full_state))) = Suc (length (executionQueue full_state))
   \<and> fst (executeTool_enter ''documentation-generator'' Map.empty (session ''B'') 5 ''exec_2''
        idle_state) = Admitted
   \<and> runningExecutions idle_state = {||}
   \<and> runningExecutions (snd (executeTool_enter ''documentation-generator'' Map.empty
        (session ''B'') 5 ''exec_2'' idle_state)) = {|''exec_2''|}"
  by (simp add: doc_validate_empty full_state_eq idle_state_eq executeTool_enter_def
      sortQueue_def fcard_fempty fcard_finsert_if)

text \<open>
  C2, amended. For a registered tool whose \<^verbatim>\<open>validate\<close> rejects the parameters: at
  capacity the call is queued, unvalidated, and a retry timer is armed; below capacity
  the call takes a slot and leaves the queue alone, and when its validation has settled
  it returns the unsuccessful result
  \<^verbatim>\<open>Tool execution failed: Invalid parameters for tool: <name>\<close>, with the slot released
  and the drain run by the finally block.
\<close>

theorem invalid_parameters_handling:
  "tools s tn = Some t \<and> validate t ps = Inr False \<longrightarrow>
     (maxConcurrent s \<le> int (fcard (runningExecutions s)) \<longrightarrow>
        executeTool_enter tn ps cx pr nid s =
          (Queued,
           s\<lparr>executionQueue :=
                sortQueue (executionQueue s @
                  [\<lparr>tool = t, parameters = ps, ctxt = cx, priority = pr\<rparr>]),
             timers := timers s @ [(tn, ps, cx, pr)]\<rparr>))
     \<and> (int (fcard (runningExecutions s)) < maxConcurrent s \<longrightarrow>
        fst (executeTool_enter tn ps cx pr nid s) = Admitted
        \<and> runningExecutions (snd (executeTool_enter tn ps cx pr nid s))
            = finsert nid (runningExecutions s)
        \<and> executionQueue (snd (executeTool_enter tn ps cx pr nid s)) = executionQueue s
        \<and> resume_validate (length (suspended s)) now nid'
              (snd (executeTool_enter tn ps cx pr nid s)) =
            (Some \<lparr>success = False, data = None,
                   message = ''Tool execution failed: Invalid parameters for tool: '' @ tn,
                   executionTime = 0,
                   errors = Some [''Invalid parameters for tool: '' @ tn]\<rparr>,
             processQueue nid'
               (s\<lparr>runningExecutions := finsert nid (runningExecutions s) |-| {|nid|}\<rparr>)))"
  by (simp add: executeTool_enter_def resume_validate_def validate_step_def catch_block_def
      finally_block_def release_def drop_nth_def Let_def)

theorem invalid_parameters_handling_witness:
  "tools full_state ''documentation-generator'' = Some DocumentationGeneratorTool
   \<and> validate DocumentationGeneratorTool Map.empty = Inr False
   \<and> maxConcurrent full_state \<le> int (fcard (runningExecutions full_state))
   \<and> fst (executeTool_enter ''documentation-generator'' Map.empty (session ''B'') 5 ''exec_2''
        full_state) = Queued
   \<and> tools idle_state ''documentation-generator'' = Some DocumentationGeneratorTool
   \<and> int (fcard (runningExecutions idle_state)) < maxConcurrent idle_state
   \<and> fst (resume_validate (length (suspended idle_state)) 100 ''exec_3''
        (snd (executeTool_enter ''documentation-generator'' Map.empty (session ''B'') 5
           ''exec_2'' idle_state))) =
       Some \<lparr>success = False, data = None,
             message = ''Tool execution failed: Invalid parameters for tool: documentation-generator'',
             executionTime = 0,
             errors = Some [''Invalid parameters for tool: documentation-generator'']\<rparr>"
proof -
  have h1: "tools full_state ''documentation-generator'' = Some DocumentationGeneratorTool
      \<and> validate DocumentationGeneratorTool Map.empty = Inr False"
    by (simp add: full_state_eq doc_validate_empty)
  have h2: "maxConcurrent full_state \<le> int (fcard (runningExecutions full_state))"
    by (simp add: full_state_eq fcard_finsert_if fcard_fempty)
  have h3: "tools idle_state ''documentation-generator'' = Some DocumentationGeneratorTool
      \<and> validate DocumentationGeneratorTool Map.empty = Inr False"
    by (simp add: idle_state_eq doc_validate_empty)
  have h4: "int (fcard (runningExecutions idle_state)) < maxConcurrent idle_state"
    by (simp add: idle_state_eq fcard_fempty)
  note full = invalid_parameters_handling [where s = full_state
      and tn = "''documentation-generator''" and t = DocumentationGeneratorTool
      and ps = Map.empty and cx = "session ''B''" and pr = 5 and nid = "''exec_2''"]
  note idle = invalid_parameters_handling [where s = idle_state
      and tn = "''documentation-generator''" and t = DocumentationGeneratorTool
      and ps = Map.empty and cx = "session ''B''" and pr = 5 and nid = "''exec_2''"
      and now = 100 and nid' = "''exec_3''"]
  have a: "fst (executeTool_enter ''documentation-generator'' Map.empty (session ''B'') 5
      ''exec_2'' full_state) = Queued"
    using full h1 h2 by simp
  have b: "fst (resume_validate (length (suspended idle_state)) 100 ''exec_3''
        (snd (executeTool_enter ''documentation-generator'' Map.empty (session ''B'') 5
           ''exec_2'' idle_state))) =
       Some \<lparr>success = False, data = None,
             message = ''Tool execution failed: Invalid parameters for tool: documentation-generator'',
             executionTime = 0,
             errors = Some [''Invalid parameters for tool: documentation-generator'']\<rparr>"
    using idle h3 h4 by simp
  show ?thesis
    using h1 h2 h3 h4 a b by blast
qed


section \<open>Results of failed executions\<close>

lemma racing_silent:
  "racing_state silent_failure_tool ms =
     \<lparr>maxConcurrent = 1, timeoutMs = ms,
      tools = [''silent'' \<mapsto> silent_failure_tool],
      executionQueue = [], runningExecutions = {|''exec_1''|}, timers = [],
      suspended = [\<lparr>tool = silent_failure_tool, parameters = source_params ''x'',
        ctxt = session ''X'', priority = 5, toolName = ''silent'',
        executionId = ''exec_1'', phase = AwaitRace 100\<rparr>]\<rparr>"
  using racing_state_eq [of silent_failure_tool ms]
  by (simp add: silent_failure_tool_def)

lemma racing_throwing:
  "racing_state throwing_tool ms =
     \<lparr>maxConcurrent = 1, timeoutMs = ms,
      tools = [''throwing'' \<mapsto> throwing_tool],
      executionQueue = [], runningExecutions = {|''exec_1''|}, timers = [],
      suspended = [\<lparr>tool = throwing_tool, parameters = source_params ''x'',
        ctxt = session ''X'', priority = 5, toolName = ''throwing'',
        executionId = ''exec_1'', phase = AwaitRace 100\<rparr>]\<rparr>"
  using racing_state_eq [of throwing_tool ms]
  by (simp add: throwing_tool_def)

lemma racing_hanging:
  "racing_state hanging_tool ms =
     \<lparr>maxConcurrent = 1, timeoutMs = ms,
      tools = [''hanging'' \<mapsto> hanging_tool],
      executionQueue = [], runningExecutions = {|''exec_1''|}, timers = [],
      suspended = [\<lparr>tool = hanging_tool, parameters = source_params ''x'',
        ctxt = session ''X'', priority = 5, toolName = ''hanging'',
        executionId = ''exec_1'', phase = AwaitRace 100\<rparr>]\<rparr>"
  using racing_state_eq [of hanging_tool ms]
  by (simp add: hanging_tool_def)

lemma racing_slow:
  "racing_state slow_tool ms =
     \<lparr>maxConcurrent = 1, timeoutMs = ms,
      tools = [''slow'' \<mapsto> slow_tool],
      executionQueue = [], runningExecutions = {|''exec_1''|}, timers = [],
      suspended = [\<lparr>tool = slow_tool, parameters = source_params ''x'',
        ctxt = session ''X'', priority = 5, toolName = ''slow'',
        executionId = ''exec_1'', phase = AwaitRace 100\<rparr>]\<rparr>"
  using racing_state_eq [of slow_tool ms]
  by (simp add: slow_tool_def)

lemma racing_frozen:
  "racing_state frozen_result_tool ms =
     \<lparr>maxConcurrent = 1, timeoutMs = ms,
      tools = [''frozen'' \<mapsto> frozen_result_tool],
      executionQueue = [], runningExecutions = {|''exec_1''|}, timers = [],
      suspended = [\<lparr>tool = frozen_result_tool, parameters = source_params ''x'',
        ctxt = session ''X'', priority = 5, toolName = ''frozen'',
        executionId = ''exec_1'', phase = AwaitRace 100\<rparr>]\<rparr>"
  using racing_state_eq [of frozen_result_tool ms]
  by (simp add: frozen_result_tool_def)

lemma timeout_error_50:
  "timeout_error fifty_ms = Error ''Tool execution timeout after 50ms''"
  by (simp add: timeout_error_def fifty_ms_def decimal_digit_def)

text \<open>
  C7, as stated, fails for a tool that signals failure by returning an unsuccessful
  result: \<^verbatim>\<open>executeTool\<close> hands that result on with only \<^verbatim>\<open>executionTime\<close> overwritten,
  here with an empty message and no errors list.
\<close>

theorem tool_reported_failure_counterexample:
  "fst (resume_race 0 False 107 ''exec_2'' (racing_state silent_failure_tool thirty_seconds)) =
     Some \<lparr>success = False, data = None, message = [], executionTime = 7, errors = None\<rparr>"
  by (simp add: racing_silent resume_race_def race_step_def settle_def)
     (simp add: silent_failure_tool_def)

text \<open>
  C7, amended. An admitted execution whose race ends by the timeout (the timer fires
  first, or the execution never settles), by a throw of \<^verbatim>\<open>execute\<close>, or by a result
  whose \<^verbatim>\<open>executionTime\<close> cannot be assigned (a frozen object) returns a result with
  \<^verbatim>\<open>success\<close> false, the non-empty message \<^verbatim>\<open>Tool execution failed: <error>\<close> and the
  one-element errors list \<^verbatim>\<open>[<error>]\<close>; for the timeout the error is
  \<^verbatim>\<open>Tool execution timeout after <timeoutMs>ms\<close>. When \<^verbatim>\<open>execute\<close> returns a writable
  result, also an unsuccessful one, that result is returned with only \<^verbatim>\<open>executionTime\<close>
  overwritten: its message and errors are the tool's own. In each case a result is
  returned; nothing is thrown to the caller.
\<close>

theorem failures_are_results:
  "k < length (suspended s) \<and> phase (suspended s ! k) = AwaitRace st \<longrightarrow>
     (timerFirst \<or> execute (tool (suspended s ! k)) (parameters (suspended s ! k)) = NeverSettles
        \<longrightarrow> fst (resume_race k timerFirst now nid s)
              = Some (catch_block (Error (''Tool execution timeout after ''
                  @ number_to_string (timeoutMs s) @ ''ms''))))
     \<and> (\<not> timerFirst
          \<and> execute (tool (suspended s ! k)) (parameters (suspended s ! k)) = Rejects e
        \<longrightarrow> fst (resume_race k timerFirst now nid s) = Some (catch_block e))
     \<and> (\<not> timerFirst
          \<and> execute (tool (suspended s ! k)) (parameters (suspended s ! k))
              = Resolves r (ReadOnly e)
        \<longrightarrow> fst (resume_race k timerFirst now nid s) = Some (catch_block e))
     \<and> (\<not> timerFirst
          \<and> execute (tool (suspended s ! k)) (parameters (suspended s ! k))
              = Resolves r Writable
        \<longrightarrow> fst (resume_race k timerFirst now nid s) = Some (r\<lparr>executionTime := now - st\<rparr>))
     \<and> fst (resume_race k timerFirst now nid s) \<noteq> None
     \<and> success (catch_block e') = False
     \<and> message (catch_block e') = ''Tool execution failed: '' @ error_message e'
     \<and> message (catch_block e') \<noteq> []
     \<and> errors (catch_block e') = Some [error_message e']"
proof (cases "execute (tool (suspended s ! k)) (parameters (suspended s ! k))")
  case (Resolves r' w)
  then show ?thesis
    by (cases timerFirst; cases w)
       (simp_all add: resume_race_def Let_def settle_def race_step_def catch_block_def
          timeout_error_def)
next
  case (Rejects x)
  then show ?thesis
    by (cases timerFirst)
       (simp_all add: resume_race_def Let_def settle_def race_step_def catch_block_def
          timeout_error_def)
next
  case NeverSettles
  then show ?thesis
    by (cases timerFirst)
       (simp_all add: resume_race_def Let_def settle_def race_step_def catch_block_def
          timeout_error_def)
qed

theorem failures_are_results_witness:
  "0 < length (suspended (racing_state hanging_tool fifty_ms))
   \<and> phase (suspended (racing_state hanging_tool fifty_ms) ! 0) = AwaitRace 100
   \<and> execute hanging_tool (source_params ''x'') = NeverSettles
   \<and> fst (resume_race 0 True 150 ''exec_2'' (racing_state hanging_tool fifty_ms)) =
       Some \<lparr>success = False, data = None,
             message = ''Tool execution failed: Tool execution timeout after 50ms'',
             executionTime = 0,
             errors = Some [''Tool execution timeout after 50ms'']\<rparr>
   \<and> execute throwing_tool (source_params ''x'') = Rejects (Error ''boom'')
   \<and> fst (resume_race 0 False 107 ''exec_2'' (racing_state throwing_tool fifty_ms)) =
       Some \<lparr>success = False, data = None, message = ''Tool execution failed: boom'',
             executionTime = 0, errors = Some [''boom'']\<rparr>
   \<and> fst (resume_race 0 False 107 ''exec_2'' (racing_state frozen_result_tool fifty_ms)) =
       Some \<lparr>success = False, data = None,
             message = ''Tool execution failed: '' @ error_message read_only_error,
             executionTime = 0, errors = Some [error_message read_only_error]\<rparr>
   \<and> fst (resume_race 0 False 107 ''exec_2'' (racing_state silent_failure_tool fifty_ms)) =
       Some \<lparr>success = False, data = None, message = [], executionTime = 7, errors = None\<rparr>"
proof -
  let ?h = "racing_state hanging_tool fifty_ms"
  let ?t = "racing_state throwing_tool fifty_ms"
  let ?z = "racing_state frozen_result_tool fifty_ms"
  let ?f = "racing_state silent_failure_tool fifty_ms"
  let ?done = "\<lparr>success = True, data = None, message = ''done'', executionTime = 0,
      errors = None\<rparr>"
  let ?silent = "\<lparr>success = False, data = None, message = [], executionTime = 0,
      errors = None\<rparr>"
  have hh: "0 < length (suspended ?h) \<and> phase (suspended ?h ! 0) = AwaitRace 100"
    by (simp add: racing_hanging)
  have ht: "0 < length (suspended ?t) \<and> phase (suspended ?t ! 0) = AwaitRace 100"
    by (simp add: racing_throwing)
  have hz: "0 < length (suspended ?z) \<and> phase (suspended ?z ! 0) = AwaitRace 100"
    by (simp add: racing_frozen)
  have hf: "0 < length (suspended ?f) \<and> phase (suspended ?f ! 0) = AwaitRace 100"
    by (simp add: racing_silent)
  have eh: "execute (tool (suspended ?h ! 0)) (parameters (suspended ?h ! 0)) = NeverSettles"
    by (simp add: racing_hanging) (simp add: hanging_tool_def)
  have et: "execute (tool (suspended ?t ! 0)) (parameters (suspended ?t ! 0))
      = Rejects (Error ''boom'')"
    by (simp add: racing_throwing) (simp add: throwing_tool_def)
  have ez: "execute (tool (suspended ?z ! 0)) (parameters (suspended ?z ! 0))
      = Resolves ?done (ReadOnly read_only_error)"
    by (simp add: racing_frozen) (simp add: frozen_result_tool_def)
  have ef: "execute (tool (suspended ?f ! 0)) (parameters (suspended ?f ! 0))
      = Resolves ?silent Writable"
    by (simp add: racing_silent) (simp add: silent_failure_tool_def)
  note timeout = failures_are_results [where s = ?h and k = 0 and st = 100
      and timerFirst = True and now = 150 and nid = "''exec_2''"]
  note throw = failures_are_results [where s = ?t and k = 0 and st = 100
      and timerFirst = False and now = 107 and nid = "''exec_2''" and e = "Error ''boom''"]
  note frozen = failures_are_results [where s = ?z and k = 0 and st = 100
      and timerFirst = False and now = 107 and nid = "''exec_2''" and e = read_only_error
      and r = ?done]
  note reported = failures_are_results [where s = ?f and k = 0 and st = 100
      and timerFirst = False and now = 107 and nid = "''exec_2''" and r = ?silent]
  have "fst (resume_race 0 True 150 ''exec_2'' ?h) =
      Some (catch_block (Error (''Tool execution timeout after ''
        @ number_to_string (timeoutMs ?h) @ ''ms'')))"
    using timeout hh by blast
  then have a: "fst (resume_race 0 True 150 ''exec_2'' ?h) =
       Some \<lparr>success = False, data = None,
             message = ''Tool execution failed: Tool execution timeout after 50ms'',
             executionTime = 0,
             errors = Some [''Tool execution timeout after 50ms'']\<rparr>"
    using timeout_error_50 by (simp add: racing_hanging timeout_error_def catch_block_def)
  have "fst (resume_race 0 False 107 ''exec_2'' ?t) = Some (catch_block (Error ''boom''))"
    using throw ht et by blast
  then have b: "fst (resume_race 0 False 107 ''exec_2'' ?t) =
       Some \<lparr>success = False, data = None, message = ''Tool execution failed: boom'',
             executionTime = 0, errors = Some [''boom'']\<rparr>"
    by (simp add: catch_block_def)
  have "fst (resume_race 0 False 107 ''exec_2'' ?z) = Some (catch_block read_only_error)"
    using frozen hz ez by blast
  then have z: "fst (resume_race 0 False 107 ''exec_2'' ?z) =
       Some \<lparr>success = False, data = None,
             message = ''Tool execution failed: '' @ error_message read_only_error,
             executionTime = 0, errors = Some [error_message read_only_error]\<rparr>"
    by (simp add: catch_block_def)
  have "fst (resume_race 0 False 107 ''exec_2'' ?f) =
      Some (?silent\<lparr>executionTime := 107 - 100\<rparr>)"
    using reported hf ef by blast
  then have c: "fst (resume_race 0 False 107 ''exec_2'' ?f) =
       Some \<lparr>success = False, data = None, message = [], executionTime = 7, errors = None\<rparr>"
    by simp
  have xh: "execute hanging_tool (source_params ''x'') = NeverSettles"
    by (simp add: hanging_tool_def)
  have xt: "execute throwing_tool (source_params ''x'') = Rejects (Error ''boom'')"
    by (simp add: throwing_tool_def)
  show ?thesis
    using hh xh a xt b z c by blast
qed

section \<open>Execution metadata\<close>

text \<open>
  C9, as stated, fails on every result built by the catch block: with a timeout of
  50 ms and a tool whose execution never settles, the race started at clock reading 100
  is ended by the timer at 150, and the result carries \<^verbatim>\<open>executionTime: 0\<close>, not the
  50 ms that elapsed.
\<close>

theorem timeout_duration_counterexample:
  "execute hanging_tool (source_params ''x'') = NeverSettles
   \<and> phase (suspended (racing_state hanging_tool fifty_ms) ! 0) = AwaitRace 100
   \<and> fst (resume_race 0 True 150 ''exec_2'' (racing_state hanging_tool fifty_ms)) =
       Some \<lparr>success = False, data = None,
             message = ''Tool execution failed: Tool execution timeout after 50ms'',
             executionTime = 0,
             errors = Some [''Tool execution timeout after 50ms'']\<rparr>"
  using timeout_error_50
  by (simp add: racing_hanging resume_race_def race_step_def settle_def catch_block_def)
     (simp add: hanging_tool_def)

text \<open>
  C9, amended. When the execution settles first with a result whose \<^verbatim>\<open>executionTime\<close>
  can be assigned, the returned result carries, in \<^verbatim>\<open>executionTime\<close>, the clock reading
  after the race minus the reading before it, and the success flag the tool set. When
  the race ends by the timeout or by a throw, when the result cannot be assigned to (a
  frozen object), or when the validation fails, the returned result has
  \<^verbatim>\<open>executionTime\<close> 0 and \<^verbatim>\<open>success\<close> false.
\<close>

theorem execution_metadata:
  "(k < length (suspended s) \<and> phase (suspended s ! k) = AwaitRace st \<longrightarrow>
      (\<not> timerFirst
         \<and> execute (tool (suspended s ! k)) (parameters (suspended s ! k)) = Resolves r Writable
       \<longrightarrow> map_option executionTime (fst (resume_race k timerFirst now nid s))
             = Some (now - st)
           \<and> map_option success (fst (resume_race k timerFirst now nid s)) = Some (success r))
      \<and> (timerFirst
           \<or> execute (tool (suspended s ! k)) (parameters (suspended s ! k)) = NeverSettles
           \<or> execute (tool (suspended s ! k)) (parameters (suspended s ! k)) = Rejects e
           \<or> execute (tool (suspended s ! k)) (parameters (suspended s ! k))
               = Resolves r (ReadOnly e)
       \<longrightarrow> map_option executionTime (fst (resume_race k timerFirst now nid s)) = Some 0
           \<and> map_option success (fst (resume_race k timerFirst now nid s)) = Some False))
   \<and> (k < length (suspended s) \<and> phase (suspended s ! k) = AwaitValidate
        \<and> validate_step (suspended s ! k) = Inl e' \<longrightarrow>
      map_option executionTime (fst (resume_validate k now nid s)) = Some 0
      \<and> map_option success (fst (resume_validate k now nid s)) = Some False)"
proof (cases "execute (tool (suspended s ! k)) (parameters (suspended s ! k))")
  case (Resolves r' w)
  then show ?thesis
    by (cases timerFirst; cases w)
       (simp_all add: resume_race_def resume_validate_def Let_def settle_def race_step_def
          catch_block_def)
next
  case (Rejects x)
  then show ?thesis
    by (cases timerFirst)
       (simp_all add: resume_race_def resume_validate_def Let_def settle_def race_step_def
          catch_block_def)
next
  case NeverSettles
  then show ?thesis
    by (cases timerFirst)
       (simp_all add: resume_race_def resume_validate_def Let_def settle_def race_step_def
          catch_block_def)
qed

theorem execution_metadata_witness:
  "0 < length (suspended (racing_state slow_tool fifty_ms))
   \<and> phase (suspended (racing_state slow_tool fifty_ms) ! 0) = AwaitRace 100
   \<and> map_option executionTime
        (fst (resume_race 0 False 142 ''exec_2'' (racing_state slow_tool fifty_ms))) = Some 42
   \<and> map_option success
        (fst (resume_race 0 False 142 ''exec_2'' (racing_state slow_tool fifty_ms))) = Some True
   \<and> execute hanging_tool (source_params ''x'') = NeverSettles
   \<and> map_option executionTime
        (fst (resume_race 0 True 150 ''exec_2'' (racing_state hanging_tool fifty_ms))) = Some 0
   \<and> map_option executionTime
        (fst (resume_race 0 False 107 ''exec_2'' (racing_state frozen_result_tool fifty_ms)))
       = Some 0
   \<and> map_option success
        (fst (resume_race 0 False 107 ''exec_2'' (racing_state frozen_result_tool fifty_ms)))
       = Some False
   \<and> phase (suspended invalid_state ! 0) = AwaitValidate
   \<and> validate_step (suspended invalid_state ! 0)
       = Inl (Error ''Invalid parameters for tool: documentation-generator'')
   \<and> map_option executionTime (fst (resume_validate 0 100 ''exec_2'' invalid_state)) = Some 0"
proof -
  let ?w = "racing_state slow_tool fifty_ms"
  let ?h = "racing_state hanging_tool fifty_ms"
  let ?z = "racing_state frozen_result_tool fifty_ms"
  let ?done = "\<lparr>success = True, data = None, message = ''done'', executionTime = 0,
      errors = None\<rparr>"
  have hw: "0 < length (suspended ?w) \<and> phase (suspended ?w ! 0) = AwaitRace 100"
    by (simp add: racing_slow)
  have hh: "0 < length (suspended ?h) \<and> phase (suspended ?h ! 0) = AwaitRace 100"
    by (simp add: racing_hanging)
  have hz: "0 < length (suspended ?z) \<and> phase (suspended ?z ! 0) = AwaitRace 100"
    by (simp add: racing_frozen)
  have hv: "0 < length (suspended invalid_state)
      \<and> phase (suspended invalid_state ! 0) = AwaitValidate
      \<and> validate_step (suspended invalid_state ! 0)
          = Inl (Error ''Invalid parameters for tool: documentation-generator'')"
    by (simp add: invalid_state_eq validate_step_def doc_validate_empty)
  have ew: "execute (tool (suspended ?w ! 0)) (parameters (suspended ?w ! 0))
      = Resolves ?done Writable"
    by (simp add: racing_slow) (simp add: slow_tool_def)
  have eh: "execute (tool (suspended ?h ! 0)) (parameters (suspended ?h ! 0)) = NeverSettles"
    by (simp add: racing_hanging) (simp add: hanging_tool_def)
  have ez: "execute (tool (suspended ?z ! 0)) (parameters (suspended ?z ! 0))
      = Resolves ?done (ReadOnly read_only_error)"
    by (simp add: racing_frozen) (simp add: frozen_result_tool_def)
  note finished = execution_metadata [where s = ?w and k = 0 and st = 100
      and timerFirst = False and now = 142 and nid = "''exec_2''" and r = ?done]
  note timeout = execution_metadata [where s = ?h and k = 0 and st = 100
      and timerFirst = True and now = 150 and nid = "''exec_2''"]
  note frozen = execution_metadata [where s = ?z and k = 0 and st = 100
      and timerFirst = False and now = 107 and nid = "''exec_2''" and r = ?done
      and e = read_only_error]
  note invalid = execution_metadata [where s = invalid_state and k = 0 and now = 100
      and nid = "''exec_2''"
      and e' = "Error ''Invalid parameters for tool: documentation-generator''"]
  have "map_option executionTime (fst (resume_race 0 False 142 ''exec_2'' ?w)) = Some (142 - 100)
      \<and> map_option success (fst (resume_race 0 False 142 ''exec_2'' ?w)) = Some (success ?done)"
    using finished hw ew by blast
  then have a: "map_option executionTime (fst (resume_race 0 False 142 ''exec_2'' ?w)) = Some 42
      \<and> map_option success (fst (resume_race 0 False 142 ''exec_2'' ?w)) = Some True"
    by simp
  have b: "map_option executionTime (fst (resume_race 0 True 150 ''exec_2'' ?h)) = Some 0"
    using timeout hh by blast
  have z: "map_option executionTime (fst (resume_race 0 False 107 ''exec_2'' ?z)) = Some 0
      \<and> map_option success (fst (resume_race 0 False 107 ''exec_2'' ?z)) = Some False"
    using frozen hz ez by blast
  have c: "map_option executionTime (fst (resume_validate 0 100 ''exec_2'' invalid_state))
      = Some 0"
    using invalid hv by blast
  have xh: "execute hanging_tool (source_params ''x'') = NeverSettles"
    by (simp add: hanging_tool_def)
  show ?thesis
    using hw hv a xh b z c by blast
qed


section \<open>Order of the backlog\<close>

lemma queue_sorted_iff: "queue_sorted q = sorted (map (\<lambda>e. - priority e) q)"
  by (induction q) (auto simp add: queue_sorted_def)

lemma sortQueue_sorted: "queue_sorted (sortQueue q)"
  by (simp add: queue_sorted_iff sortQueue_def)

lemma insort_front:
  "\<forall>y\<in>set ys. f x \<le> f y \<Longrightarrow> insort_key f x ys = x # ys"
  by (cases ys) auto

text \<open>
  Pushing an element at the end of a sorted list and sorting stably puts it behind every
  element whose key is not larger, and keeps the others in their order.
\<close>

lemma sort_key_snoc_sorted:
  "sorted (map f q) \<Longrightarrow>
   sort_key f (q @ [e]) = filter (\<lambda>x. f x \<le> f e) q @ [e] @ filter (\<lambda>x. f e < f x) q"
proof (induction q)
  case Nil
  then show ?case by simp
next
  case (Cons x q)
  then have srt: "sorted (map f q)" and le: "\<forall>y\<in>set q. f x \<le> f y" by auto
  have IH: "sort_key f (q @ [e])
      = filter (\<lambda>x. f x \<le> f e) q @ [e] @ filter (\<lambda>x. f e < f x) q"
    using Cons.IH srt by simp
  show ?case
  proof (cases "f x \<le> f e")
    case True
    have "\<forall>y\<in>set (sort_key f (q @ [e])). f x \<le> f y" using le True by auto
    then have "insort_key f x (sort_key f (q @ [e])) = x # sort_key f (q @ [e])"
      by (rule insort_front)
    then show ?thesis using True IH by (simp add: sort_key_def)
  next
    case False
    then have lt: "f e < f x" by simp
    have all: "\<forall>y\<in>set q. f e < f y" using le lt by auto
    have f1: "filter (\<lambda>x. f x \<le> f e) q = []" using all by (auto simp add: filter_empty_conv)
    have f2: "filter (\<lambda>x. f e < f x) q = q" using all by (simp add: filter_id_conv)
    have "insort_key f x q = x # q" using le by (rule insort_front)
    then show ?thesis using False lt IH f1 f2 by (simp add: sort_key_def)
  qed
qed

lemma sortQueue_push:
  "queue_sorted q \<Longrightarrow>
   sortQueue (q @ [e]) =
     filter (\<lambda>x. priority e \<le> priority x) q @ [e] @ filter (\<lambda>x. priority x < priority e) q"
  using sort_key_snoc_sorted [of "\<lambda>e. - priority e" q e]
  by (simp add: queue_sorted_iff sortQueue_def)

lemma enter_sorted:
  "queue_sorted (executionQueue s) \<Longrightarrow>
   queue_sorted (executionQueue (snd (executeTool_enter tn ps cx pr nid s)))"
  by (simp add: executeTool_enter_def sortQueue_sorted split: option.splits)

lemma queue_sorted_tl: "queue_sorted (e # rest) \<Longrightarrow> queue_sorted rest"
  by (simp add: queue_sorted_def)

lemma processQueue_sorted:
  assumes "queue_sorted (executionQueue s)"
  shows "queue_sorted (executionQueue (processQueue nid s))"
proof (cases "executionQueue s")
  case Nil
  then show ?thesis using assms by (simp add: processQueue_def)
next
  case (Cons e rest)
  have "queue_sorted (executionQueue (s\<lparr>executionQueue := rest\<rparr>))"
    using assms Cons by (simp add: queue_sorted_tl)
  then have "queue_sorted (executionQueue (snd (executeTool_enter (name (tool e)) (parameters e)
      (ctxt e) (priority e) nid (s\<lparr>executionQueue := rest\<rparr>))))"
    by (rule enter_sorted)
  then show ?thesis using assms Cons by (simp add: processQueue_def)
qed

lemma finally_block_sorted:
  assumes "queue_sorted (executionQueue s)"
  shows "queue_sorted (executionQueue (finally_block eid nid s))"
proof -
  have "queue_sorted (executionQueue (release eid s))" using assms by (simp add: release_def)
  then show ?thesis unfolding finally_block_def by (rule processQueue_sorted)
qed

lemma step_sorted:
  assumes "queue_sorted (executionQueue s)"
  shows "queue_sorted (executionQueue (step s e))"
proof (cases e)
  case (Register t)
  then show ?thesis using assms by (simp add: registerTool_def)
next
  case (Submit tn ps cx pr nid)
  then show ?thesis using assms by (simp add: enter_sorted)
next
  case (TimerFires nid)
  show ?thesis
  proof (cases "timers s")
    case Nil
    then show ?thesis using assms TimerFires by (simp add: timer_fires_def)
  next
    case (Cons r rest)
    obtain tn ps cx pr where r: "r = (tn, ps, cx, pr)" by (cases r) auto
    have "queue_sorted (executionQueue (s\<lparr>timers := rest\<rparr>))" using assms by simp
    from enter_sorted [OF this] show ?thesis using TimerFires Cons r
      by (simp add: timer_fires_def)
  qed
next
  case (ValidateSettles k now nid)
  have "\<And>xs. queue_sorted (executionQueue (s\<lparr>suspended := xs\<rparr>))" using assms by simp
  from finally_block_sorted [OF this] show ?thesis using ValidateSettles assms
    by (simp add: resume_validate_def Let_def split: sum.splits)
next
  case (RaceSettles k tf now nid)
  have "\<And>xs. queue_sorted (executionQueue (s\<lparr>suspended := xs\<rparr>))" using assms by simp
  from finally_block_sorted [OF this] show ?thesis using RaceSettles assms
    by (simp add: resume_race_def Let_def split: phase.splits)
qed

lemma run_sorted:
  "queue_sorted (executionQueue s) \<Longrightarrow> queue_sorted (executionQueue (run s evs))"
  unfolding run_def
  by (induction evs arbitrary: s) (simp_all add: step_sorted)

lemma reachable_sorted: "queue_sorted (executionQueue (run (new_orchestrator m t) evs))"
  by (rule run_sorted) (simp add: new_orchestrator_def queue_sorted_def)

text \<open>
  C4. Priority order of the backlog. In every reachable state the execution queue is
  sorted by descending priority. A call that is queued lands behind every entry of
  higher or equal priority and before every entry of lower priority, the entries that
  were there keeping their order, so that entries of equal priority stand in the order
  of their arrival. The head has the highest priority of the queue, and when a finished
  call releases its slot and the drain finds capacity, it is the head that the drain
  promotes, the tail staying as the queue.
\<close>

theorem backlog_priority_order:
  assumes "s = run (new_orchestrator m t) evs"
  shows "queue_sorted (executionQueue s)
    \<and> (tools s tn = Some u \<and> maxConcurrent s \<le> int (fcard (runningExecutions s)) \<longrightarrow>
         executionQueue (snd (executeTool_enter tn ps cx pr nid s)) =
           filter (\<lambda>x. pr \<le> priority x) (executionQueue s)
           @ [\<lparr>tool = u, parameters = ps, ctxt = cx, priority = pr\<rparr>]
           @ filter (\<lambda>x. priority x < pr) (executionQueue s))
    \<and> (executionQueue s = e # rest \<longrightarrow>
         (\<forall>x\<in>set rest. priority x \<le> priority e)
         \<and> (int (fcard (runningExecutions (release eid s))) < maxConcurrent s \<longrightarrow>
              finally_block eid nid s =
                snd (executeTool_enter (name (tool e)) (parameters e) (ctxt e) (priority e) nid
                       ((release eid s)\<lparr>executionQueue := rest\<rparr>))
              \<and> executionQueue (finally_block eid nid s) = rest))"
proof -
  have srt: "queue_sorted (executionQueue s)"
    using assms by (simp add: reachable_sorted)
  have push: "tools s tn = Some u \<and> maxConcurrent s \<le> int (fcard (runningExecutions s)) \<longrightarrow>
      executionQueue (snd (executeTool_enter tn ps cx pr nid s)) =
        filter (\<lambda>x. pr \<le> priority x) (executionQueue s)
        @ [\<lparr>tool = u, parameters = ps, ctxt = cx, priority = pr\<rparr>]
        @ filter (\<lambda>x. priority x < pr) (executionQueue s)"
    using sortQueue_push [OF srt, of "\<lparr>tool = u, parameters = ps, ctxt = cx, priority = pr\<rparr>"]
    by (simp add: executeTool_enter_def)
  have head: "executionQueue s = e # rest \<longrightarrow> (\<forall>x\<in>set rest. priority x \<le> priority e)"
    using srt by (auto simp add: queue_sorted_def)
  have drain: "executionQueue s = e # rest
      \<and> int (fcard (runningExecutions (release eid s))) < maxConcurrent s
      \<longrightarrow> finally_block eid nid s =
            snd (executeTool_enter (name (tool e)) (parameters e) (ctxt e) (priority e) nid
                   ((release eid s)\<lparr>executionQueue := rest\<rparr>))
          \<and> executionQueue (finally_block eid nid s) = rest"
    by (auto simp add: finally_block_def release_def processQueue_def executeTool_enter_def
        split: option.splits)
  show ?thesis
    using srt push head drain by blast
qed

theorem backlog_priority_order_witness:
  "queue_sorted (executionQueue backlog_state)
   \<and> executionQueue backlog_state =
       [entry_of ''first'' ''F'' 5, entry_of ''second'' ''S'' 5, entry_of ''low'' ''L'' 1]
   \<and> tools backlog_state ''documentation-generator'' = Some DocumentationGeneratorTool
   \<and> maxConcurrent backlog_state \<le> int (fcard (runningExecutions backlog_state))
   \<and> executionQueue (snd (executeTool_enter ''documentation-generator'' (source_params ''third'')
        (session ''T'') 5 ''exec_5'' backlog_state)) =
       [entry_of ''first'' ''F'' 5, entry_of ''second'' ''S'' 5, entry_of ''third'' ''T'' 5,
        entry_of ''low'' ''L'' 1]
   \<and> priority (entry_of ''second'' ''S'' 5) \<le> priority (entry_of ''first'' ''F'' 5)
   \<and> priority (entry_of ''low'' ''L'' 1) \<le> priority (entry_of ''first'' ''F'' 5)
   \<and> int (fcard (runningExecutions (release ''exec_1'' backlog_state)))
       < maxConcurrent backlog_state
   \<and> executionQueue (finally_block ''exec_1'' ''exec_5'' backlog_state)
       = [entry_of ''second'' ''S'' 5, entry_of ''low'' ''L'' 1]"
proof -
  have q: "executionQueue backlog_state =
      entry_of ''first'' ''F'' 5 # [entry_of ''second'' ''S'' 5, entry_of ''low'' ''L'' 1]"
    by (simp add: backlog_state_eq)
  have h: "tools backlog_state ''documentation-generator'' = Some DocumentationGeneratorTool
      \<and> maxConcurrent backlog_state \<le> int (fcard (runningExecutions backlog_state))"
    by (simp add: backlog_state_eq fcard_finsert_if fcard_fempty)
  have c: "int (fcard (runningExecutions (release ''exec_1'' backlog_state)))
      < maxConcurrent backlog_state"
    by (simp add: release_def backlog_state_eq fcard_fempty)
  note order = backlog_priority_order [OF backlog_state_def,
      where tn = "''documentation-generator''" and u = DocumentationGeneratorTool
      and ps = "source_params ''third''" and cx = "session ''T''" and pr = 5
      and nid = "''exec_5''" and e = "entry_of ''first'' ''F'' 5"
      and rest = "[entry_of ''second'' ''S'' 5, entry_of ''low'' ''L'' 1]"
      and eid = "''exec_1''"]
  have a: "queue_sorted (executionQueue backlog_state)"
    using order by blast
  have "executionQueue (snd (executeTool_enter ''documentation-generator''
        (source_params ''third'') (session ''T'') 5 ''exec_5'' backlog_state)) =
      filter (\<lambda>x. 5 \<le> priority x) (executionQueue backlog_state)
      @ [\<lparr>tool = DocumentationGeneratorTool, parameters = source_params ''third'',
          ctxt = session ''T'', priority = 5\<rparr>]
      @ filter (\<lambda>x. priority x < 5) (executionQueue backlog_state)"
    using order h by blast
  then have b: "executionQueue (snd (executeTool_enter ''documentation-generator''
        (source_params ''third'') (session ''T'') 5 ''exec_5'' backlog_state)) =
      [entry_of ''first'' ''F'' 5, entry_of ''second'' ''S'' 5, entry_of ''third'' ''T'' 5,
       entry_of ''low'' ''L'' 1]"
    by (simp add: q entry_of_def)
  have "\<forall>x\<in>set [entry_of ''second'' ''S'' 5, entry_of ''low'' ''L'' 1].
      priority x \<le> priority (entry_of ''first'' ''F'' 5)"
    using order q by blast
  then have d: "priority (entry_of ''second'' ''S'' 5) \<le> priority (entry_of ''first'' ''F'' 5)
      \<and> priority (entry_of ''low'' ''L'' 1) \<le> priority (entry_of ''first'' ''F'' 5)"
    by simp
  have f: "executionQueue (finally_block ''exec_1'' ''exec_5'' backlog_state)
      = [entry_of ''second'' ''S'' 5, entry_of ''low'' ''L'' 1]"
    using order q c by blast
  show ?thesis
    using a q h b c d f by simp
qed

section \<open>A queued call in several states at once\<close>

text \<open>
  C6 does not hold of the code. A queued call is re-submitted twice over: by its retry
  timer (line 87) and by the drain (line 151), and the timer's call does not take the
  entry out of the queue. In the run \<open>busy_events\<close>, with one slot and one submission by
  session A, that submission is at once in the execution queue and in flight in its race
  (so \<^verbatim>\<open>tool.execute\<close> has been called for it); when that execution has finished, the
  drain starts the same submission again, \<^verbatim>\<open>tool.execute\<close> is called a second time, and
  a retry timer for it is still pending.
\<close>

theorem queued_call_runs_twice:
  "length (filter (submitted_by ''A'') busy_events_later) = 1
   \<and> executionQueue (run (new_orchestrator 1 thirty_seconds) busy_events) = [entry_A]
   \<and> suspended (run (new_orchestrator 1 thirty_seconds) busy_events) = [racing_A ''exec_5'' 1510]
   \<and> ctxt entry_A = session ''A'' \<and> ctxt (racing_A ''exec_5'' 1510) = session ''A''
   \<and> suspended (run (new_orchestrator 1 thirty_seconds) busy_events_later) = [racing_A ''exec_7'' 1610]
   \<and> timers (run (new_orchestrator 1 thirty_seconds) busy_events_later)
       = [(''documentation-generator'', source_params ''a'', session ''A'', 5)]"
  by (simp add: busy_state busy_state_later)
     (simp add: busy_events_later_def busy_events_def session_def entry_A_def racing_A_def)


end
